theory Spec2Isabelle
  imports Complex_Main "HOL-Library.AList"
begin

section \<open>JavaScript strings and truthiness\<close>

text \<open>
  Strings are \<^typ>\<open>string\<close> (ASCII). Numbers are \<^typ>\<open>real\<close>: the model covers the
  finite numbers on which the arithmetic of the code is exact; NaN, the infinities and
  IEEE rounding are outside of it. An optional property (\<open>x?: T\<close>) is a \<^typ>\<open>'a option\<close>,
  \<open>None\<close> standing for \<open>undefined\<close>.
\<close>

text \<open>\<open>String.prototype.toLowerCase\<close>, on ASCII: \<open>A\<close>..\<open>Z\<close> (65..90) move to \<open>a\<close>..\<open>z\<close>.\<close>

definition toLowerChar :: "char \<Rightarrow> char" where
  "toLowerChar c =
     (let n = (of_char c :: nat) in if 65 \<le> n \<and> n \<le> 90 then char_of (n + 32) else c)"

definition toLowerCase :: "string \<Rightarrow> string" where
  "toLowerCase s = map toLowerChar s"

text \<open>\<open>a || b\<close> on an optional string: \<open>undefined\<close> and the empty string are falsy.\<close>

definition orElse :: "string option \<Rightarrow> string \<Rightarrow> string" where
  "orElse a b = (case a of None \<Rightarrow> b | Some s \<Rightarrow> if s = [] then b else s)"

text \<open>\<open>String.prototype.startsWith\<close>.\<close>

definition startsWith :: "string \<Rightarrow> string \<Rightarrow> bool" where
  "startsWith s p = (take (length p) s = p)"

text \<open>\<open>Array.prototype.join\<close> on an array of strings.\<close>

fun join :: "string \<Rightarrow> string list \<Rightarrow> string" where
  "join sep [] = []"
| "join sep [x] = x"
| "join sep (x # y # ys) = x @ sep @ join sep (y # ys)"

section \<open>Duration conversion\<close>

text \<open>
  \<open>convertToMinutes\<close> as exported by \<open>common-validations\<close>:
  \<^verbatim>\<open>switch (unit) { case 'hours': return value * 60;
                  case 'days': return value * 24 * 60; default: return value; }\<close>
\<close>

definition convertToMinutes :: "real \<Rightarrow> string \<Rightarrow> real" where
  "convertToMinutes v unit =
     (if unit = ''hours'' then v * 60
      else if unit = ''days'' then v * 24 * 60
      else v)"

text \<open>
  The converter local to \<open>schema-ajv-validator\<close> (same source name), which switches on
  \<open>unit.toLowerCase()\<close> and knows months.
\<close>

definition validator_convertToMinutes :: "real \<Rightarrow> string \<Rightarrow> real" where
  "validator_convertToMinutes v unit =
     (let u = toLowerCase unit in
      if u = ''months'' then v * 30 * 24 * 60
      else if u = ''days'' then v * 24 * 60
      else if u = ''hours'' then v * 60
      else if u = ''minutes'' then v
      else v)"

section \<open>Custom keywords\<close>

text \<open>
  Every keyword is \<open>validate(schema, data)\<close>; the schema argument is unused. The data of an
  array keyword is \<open>None\<close> when it is not an array (\<open>!Array.isArray(data)\<close>) and
  \<open>Some items\<close> otherwise, the items typed as the signature of the keyword declares them.
\<close>

record TimeTarget =
  resolveWithinUnit :: string
  resolveWithinValue :: real
  respondWithinUnit :: string
  respondWithinValue :: real

definition validateTimeRelation :: "'s \<Rightarrow> TimeTarget list option \<Rightarrow> bool" where
  "validateTimeRelation schema data =
     (case data of
        None \<Rightarrow> True
      | Some targets \<Rightarrow>
          if length targets = 0 then True
          else \<not> list_ex (\<lambda>target.
                 let resolveMinutes =
                       validator_convertToMinutes (resolveWithinValue target) (resolveWithinUnit target);
                     respondMinutes =
                       validator_convertToMinutes (respondWithinValue target) (respondWithinUnit target)
                 in resolveMinutes \<le> respondMinutes) targets)"


record SeverityItem =
  severity :: string













text \<open>
  \<open>String.prototype.trim\<close> on ASCII: the white space characters are tab, line feed,
  vertical tab, form feed, carriage return and space.
\<close>

definition isWhiteSpace :: "char \<Rightarrow> bool" where
  "isWhiteSpace c = ((of_char c :: nat) \<in> {9, 10, 11, 12, 13, 32})"

definition trim :: "string \<Rightarrow> string" where
  "trim s = rev (dropWhile isWhiteSpace (rev (dropWhile isWhiteSpace s)))"

definition isNotEmpty :: "'s \<Rightarrow> string \<Rightarrow> bool" where
  "isNotEmpty schema data = (length (trim data) > 0)"


text \<open>\<open>String.prototype.split\<close> with a one-character separator.\<close>

fun split :: "char \<Rightarrow> string \<Rightarrow> string list" where
  "split sep [] = [[]]"
| "split sep (c # cs) =
     (if c = sep then [] # split sep cs
      else (case split sep cs of [] \<Rightarrow> [[c]] | p # ps \<Rightarrow> (c # p) # ps))"


definition falsy :: "string option \<Rightarrow> bool" where
  "falsy s = (case s of None \<Rightarrow> True | Some t \<Rightarrow> t = [])"



section \<open>The error normalizer\<close>

text \<open>
  An \<open>ErrorObject\<close> of Ajv, with the properties \<open>formatAjvErrors\<close> reads. The properties
  of \<open>params\<close> are flattened (\<open>params_x\<close> is \<open>error.params?.x\<close>); an absent
  \<open>instancePath\<close> and the empty one are the same falsy value. Values that the code only
  joins into a message (\<open>enum\<close>, \<open>allowedValues\<close>) are the strings they print as. An
  \<open>errorMessage\<close> of a schema that is a plain string has none of the three overrides.
\<close>

record ErrorMessage =
  type_message :: "string option"
  pattern_message :: "string option"
  additionalProperties_message :: "string option"

record ParentSchema =
  schema_enum :: "string list option"
  schema_errorMessage :: "ErrorMessage option"

datatype ErrorObject = ErrorObject
  (keyword: string)
  (instancePath: string)
  (raw_message: "string option")
  (params_missingProperty: "string option")
  (params_additionalProperty: "string option")
  (params_format: "string option")
  (params_type: "string option")
  (params_allowedValues: "string list option")
  (params_errors: "ErrorObject list option")
  (parentSchema: "ParentSchema option")

text \<open>The caller-facing error, and the value kept in \<open>errorMap\<close>, which adds a priority.\<close>

record ValidationError =
  field :: string
  message :: string
  path :: "string list option"

record Entry = ValidationError +
  priority :: int

datatype error = TypeError | CompileError

datatype 'a nullable = Null | Undefined | Value 'a

definition isDigit :: "char \<Rightarrow> bool" where
  "isDigit c = (48 \<le> (of_char c :: nat) \<and> (of_char c :: nat) \<le> 57)"

text \<open>\<open>/^\d+$/.test(part)\<close> and \<open>/\d+/.test(path)\<close>.\<close>

definition allDigits :: "string \<Rightarrow> bool" where
  "allDigits part = (part \<noteq> [] \<and> list_all isDigit part)"

definition hasDigit :: "string \<Rightarrow> bool" where
  "hasDigit p = list_ex isDigit p"

text \<open>\<open>split('/').filter(Boolean)\<close>: the non-empty segments.\<close>

definition segments :: "string \<Rightarrow> string list" where
  "segments p = filter (\<lambda>part. part \<noteq> []) (split CHR ''/'' p)"

text \<open>The \<open>reduce\<close> of \<open>_formatArrayPath\<close>, with its accumulator and index.\<close>

fun reduceParts :: "string \<Rightarrow> nat \<Rightarrow> string list \<Rightarrow> string" where
  "reduceParts result index [] = result"
| "reduceParts result index (part # parts) =
     reduceParts
       (if allDigits part then result @ ''['' @ part @ '']''
        else result @ (if index = 0 then part else ''.'' @ part))
       (index + 1) parts"

definition formatArrayPath :: "string \<Rightarrow> string" where
  "formatArrayPath p = (if p = [] then [] else reduceParts [] 0 (segments (drop 1 p)))"

definition getFieldFromPath :: "string \<Rightarrow> string" where
  "getFieldFromPath p =
     (if p = [] then []
      else if CHR ''/'' \<in> set p \<and> hasDigit p then formatArrayPath p
      else map (\<lambda>c. if c = CHR ''/'' then CHR ''.'' else c) (drop 1 p))"

definition getFormatErrorMessage :: "ErrorObject \<Rightarrow> string" where
  "getFormatErrorMessage error =
     (if params_format error = Some ''email'' then ''Please enter a valid email address''
      else if params_format error = Some ''date-time'' then ''Please enter a valid date and time''
      else if params_format error = Some ''uuid'' then ''Invalid ID format''
      else orElse (raw_message error) ''Invalid format'')"

definition getTypeErrorMessage :: "ErrorObject \<Rightarrow> string" where
  "getTypeErrorMessage error =
     (let expectedType = (case params_type error of None \<Rightarrow> ''undefined'' | Some t \<Rightarrow> t);
          fld = getFieldFromPath (instancePath error);
          enum = (case parentSchema error of None \<Rightarrow> None | Some ps \<Rightarrow> schema_enum ps);
          override = (case parentSchema error of
                        None \<Rightarrow> None
                      | Some ps \<Rightarrow> (case schema_errorMessage ps of
                                     None \<Rightarrow> None
                                   | Some em \<Rightarrow> type_message em))
      in case enum of
           Some vs \<Rightarrow> fld @ '' must be one of: '' @ join '', '' vs
         | None \<Rightarrow> orElse override (fld @ '' must be a '' @ expectedType))"

definition getEnumErrorMessage :: "ErrorObject \<Rightarrow> string" where
  "getEnumErrorMessage error =
     (case params_allowedValues error of
        Some vs \<Rightarrow> ''Must be one of: '' @ join '', '' vs
      | None \<Rightarrow> ''Invalid value selected'')"

text \<open>
  The body of the \<open>switch\<close> of the \<open>forEach\<close>: the field, message, priority and path an
  error is filed under.
\<close>

definition deriveEntry :: "ErrorObject \<Rightarrow> Entry" where
  "deriveEntry error =
     (let pth = (if instancePath error \<noteq> [] then Some (segments (instancePath error)) else None);
          kw = keyword error
      in if kw = ''required'' then
           (let fld = orElse (params_missingProperty error) [] in
            \<lparr>field = fld,
             message = orElse (case params_errors error of
                                 Some (nested # rest) \<Rightarrow> raw_message nested
                               | _ \<Rightarrow> None)
                         (''The field '' @ [CHR 0x27] @ fld @ [CHR 0x27] @ '' is required''),
             path = pth, priority = 1\<rparr>)
         else if kw = ''format'' then
           \<lparr>field = getFieldFromPath (instancePath error),
            message = getFormatErrorMessage error, path = pth, priority = 3\<rparr>
         else if kw = ''type'' then
           \<lparr>field = getFieldFromPath (instancePath error),
            message = getTypeErrorMessage error, path = pth, priority = 2\<rparr>
         else if kw = ''enum'' then
           \<lparr>field = getFieldFromPath (instancePath error),
            message = getEnumErrorMessage error, path = pth, priority = 2\<rparr>
         else if kw = ''pattern'' then
           \<lparr>field = getFieldFromPath (instancePath error),
            message = orElse (case parentSchema error of
                                None \<Rightarrow> None
                              | Some ps \<Rightarrow> (case schema_errorMessage ps of
                                             None \<Rightarrow> None
                                           | Some em \<Rightarrow> pattern_message em))
                        ''Invalid format'',
            path = pth, priority = 2\<rparr>
         else if kw = ''additionalProperties'' then
           (let fld = orElse (params_additionalProperty error) [] in
            \<lparr>field = fld,
             message = ''The property '' @ [CHR 0x27] @ fld @ [CHR 0x27] @ '' is not allowed'',
             path = pth, priority = 2\<rparr>)
         else
           \<lparr>field = getFieldFromPath (instancePath error),
            message = orElse (raw_message error) ''Validation error'',
            path = pth, priority = 1\<rparr>)"


definition setIfHigher :: "Entry \<Rightarrow> (string \<times> Entry) list \<Rightarrow> (string \<times> Entry) list" where
  "setIfHigher entry errorMap =
     (case map_of errorMap (field entry) of
        None \<Rightarrow> AList.update (field entry) entry errorMap
      | Some existing \<Rightarrow>
          if priority existing < priority entry then AList.update (field entry) entry errorMap
          else errorMap)"

definition addError :: "ErrorObject \<Rightarrow> (string \<times> Entry) list \<Rightarrow> error + (string \<times> Entry) list" where
  "addError error errorMap =
     (case (if keyword error = ''errorMessage'' then params_errors error else None) of
        None \<Rightarrow> Inr (setIfHigher (deriveEntry error) errorMap)
      | Some [] \<Rightarrow> Inl TypeError
      | Some (nestedError # rest) \<Rightarrow>
          if keyword nestedError = ''additionalProperties'' then
            (let fld = orElse (params_additionalProperty nestedError) [] in
             case parentSchema nestedError of
               None \<Rightarrow> Inl TypeError
             | Some ps \<Rightarrow>
                 (case schema_errorMessage ps of
                    None \<Rightarrow> Inl TypeError
                  | Some em \<Rightarrow>
                      Inr (AList.update fld
                            \<lparr>field = fld,
                             message = orElse (additionalProperties_message em)
                               (''The property '' @ [CHR 0x27] @ fld @ [CHR 0x27] @ '' is not allowed''),
                             path = None, priority = 2\<rparr> errorMap)))
          else Inr (setIfHigher (deriveEntry error) errorMap))"

fun buildErrorMap :: "ErrorObject list \<Rightarrow> (string \<times> Entry) list \<Rightarrow> error + (string \<times> Entry) list" where
  "buildErrorMap [] errorMap = Inr errorMap"
| "buildErrorMap (error # rest) errorMap =
     (case addError error errorMap of
        Inl x \<Rightarrow> Inl x
      | Inr errorMap' \<Rightarrow> buildErrorMap rest errorMap')"

definition thenSchemaMessage :: string where
  "thenSchemaMessage = ''must match '' @ [CHR 0x22] @ ''then'' @ [CHR 0x22] @ '' schema''"

text \<open>
  The first filter: a \<open>must match "then" schema\<close> entry with a non-empty field goes when some
  other entry \<open>e\<close> has \<open>e.field.startsWith(error.field + '.')\<close>, or has a longer path whose
  first segments, joined by dots, equal the joined path of the entry.
\<close>

definition coversChild :: "Entry \<Rightarrow> Entry \<Rightarrow> bool" where
  "coversChild error e =
     (startsWith (field e) (field error @ ''.'') \<or>
      (case (path e, path error) of
         (Some ep, Some errp) \<Rightarrow>
           length ep > length errp \<and> join ''.'' (take (length errp) ep) = join ''.'' errp
       | _ \<Rightarrow> False))"

definition keepsGeneric :: "Entry list \<Rightarrow> Entry \<Rightarrow> bool" where
  "keepsGeneric entries error =
     (if message error = thenSchemaMessage \<and> field error \<noteq> [] then
        \<not> list_ex (\<lambda>e. e \<noteq> error \<and> coversChild error e) entries
      else True)"

text \<open>
  The entries that survive both filters, in the order of the stable sort by descending
  priority (\<open>sort((a, b) => b.priority - a.priority)\<close>).
\<close>

definition finalEntries :: "(string \<times> Entry) list \<Rightarrow> Entry list" where
  "finalEntries errorMap =
     (let entries = map snd errorMap in
      sort_key (\<lambda>e. - priority e)
        (filter (\<lambda>error. field error \<noteq> [] \<or> priority error > 1)
           (filter (keepsGeneric entries) entries)))"

definition formatAjvErrors :: "ErrorObject list nullable \<Rightarrow> error + ValidationError list" where
  "formatAjvErrors errors =
     (case errors of
        Null \<Rightarrow> Inr []
      | Undefined \<Rightarrow> Inr []
      | Value es \<Rightarrow>
          (case buildErrorMap es [] of
             Inl x \<Rightarrow> Inl x
           | Inr errorMap \<Rightarrow> Inr (map ValidationError.truncate (finalEntries errorMap))))"

section \<open>The validator\<close>

text \<open>
  Ajv is a library outside the repository, so the instance \<open>ajv\<close> is a parameter:
  \<open>ajv schema\<close> is \<open>ajv.compile(schema)\<close>, which throws (\<open>Inl\<close>) or returns the validate
  function; calling that on a value throws (a custom keyword may) or returns the boolean
  together with the \<open>validateFn.errors\<close> it leaves behind.
\<close>

type_synonym 'value ValidateFunction = "'value \<Rightarrow> error + bool \<times> ErrorObject list nullable"

type_synonym ('schema, 'value) Ajv = "'schema \<Rightarrow> error + 'value ValidateFunction"

record ValidationOptions =
  strict :: "bool option"
  debug :: "bool option"
  customMessages :: "(string \<Rightarrow> string option) option"

record ValidationResult =
  isValid :: bool
  errors :: "ValidationError list option"
  rawErrors :: "ErrorObject list option option"

text \<open>
  \<open>rawErrors\<close> is \<open>None\<close> when the result has no such key, \<open>Some None\<close> when it is
  \<open>null\<close>. \<open>errors\<close> is \<open>None\<close> for \<open>null\<close>.
\<close>

definition applyCustomMessage :: "(string \<Rightarrow> string option) \<Rightarrow> ErrorObject \<Rightarrow> ErrorObject" where
  "applyCustomMessage messages error =
     (let customMessage = messages (keyword error) in
      if \<not> falsy customMessage
      then ErrorObject (keyword error) (instancePath error) customMessage
             (params_missingProperty error) (params_additionalProperty error) (params_format error)
             (params_type error) (params_allowedValues error) (params_errors error)
             (parentSchema error)
      else error)"

definition remapErrors ::
  "ValidationOptions option \<Rightarrow> ErrorObject list nullable \<Rightarrow> ErrorObject list nullable" where
  "remapErrors options errs =
     (case (case options of None \<Rightarrow> None | Some opts \<Rightarrow> customMessages opts, errs) of
        (Some messages, Value es) \<Rightarrow> Value (map (applyCustomMessage messages) es)
      | _ \<Rightarrow> errs)"

text \<open>The body of the \<open>try\<close> block; \<open>Inl\<close> is an exception leaving it.\<close>

definition tryValidate ::
  "('schema, 'value) Ajv \<Rightarrow> 'schema \<Rightarrow> 'value \<Rightarrow> ValidationOptions option
     \<Rightarrow> error + ValidationResult" where
  "tryValidate ajv schema v options =
     (case ajv schema of
        Inl x \<Rightarrow> Inl x
      | Inr validateFn \<Rightarrow>
          (case validateFn v of
             Inl x \<Rightarrow> Inl x
           | Inr (valid, errs0) \<Rightarrow>
               (let errs = remapErrors options errs0;
                    dbg = (case options of None \<Rightarrow> False | Some opts \<Rightarrow> debug opts = Some True);
                    raw = (if dbg then Some (case errs of Value es \<Rightarrow> Some es | _ \<Rightarrow> None)
                           else None)
                in case (if valid then Null else errs) of
                     Value es \<Rightarrow>
                       (case formatAjvErrors (Value es) of
                          Inl x \<Rightarrow> Inl x
                        | Inr formattedErrors \<Rightarrow>
                            Inr \<lparr>isValid = valid, errors = Some formattedErrors, rawErrors = raw\<rparr>)
                   | _ \<Rightarrow> Inr \<lparr>isValid = valid, errors = None, rawErrors = raw\<rparr>)))"

definition schemaError :: ValidationResult where
  "schemaError =
     \<lparr>isValid = False,
      errors = Some [\<lparr>field = ''_schema'', message = ''Invalid schema configuration'', path = None\<rparr>],
      rawErrors = None\<rparr>"

text \<open>
  \<open>ajvSchemaValidator\<close>: the \<open>try\<close> block, and the \<open>catch\<close> that logs (reading
  \<open>process.env.TEST\<close> and calling \<open>console.error\<close>, neither of which throws) and returns
  the \<open>_schema\<close> error. The result is an \<open>error + ValidationResult\<close> so that "does not
  throw" is a statement about it.
\<close>

definition ajvSchemaValidator ::
  "('schema, 'value) Ajv \<Rightarrow> 'schema \<Rightarrow> 'value \<Rightarrow> ValidationOptions option
     \<Rightarrow> error + ValidationResult" where
  "ajvSchemaValidator ajv schema v options =
     (case tryValidate ajv schema v options of
        Inr result \<Rightarrow> Inr result
      | Inl caught \<Rightarrow> Inr schemaError)"

section \<open>Schema fragments\<close>

text \<open>
  A schema fragment is the JSON-Schema object that TypeBox builds: a list of keywords, and
  the \<open>Optional\<close> mark that \<open>Type.Object\<close> reads to compute \<open>required\<close>. Only the
  keywords the modelled factories use are present. \<open>IfThen c t\<close> is the pair of \<open>if\<close> and
  \<open>then\<close> of one object; \<open>ErrorMessage\<close> holds the per-keyword texts of an
  \<open>errorMessage\<close> and \<open>ErrorMessageProperties\<close> its \<open>properties\<close> form. A keyword whose
  value is \<open>undefined\<close> (\<open>Pattern None\<close>, \<open>MinItems None\<close>) is ignored by Ajv.
\<close>

datatype schema = Schema (optional: bool) (schema_kws: "kw list")
and kw =
    Type string
  | Format string
  | Enum "string list"
  | Pattern "string option"
  | MinItems "nat option"
  | MaxItems "nat option"
  | IsNotEmpty bool
  | Properties "(string \<times> schema) list"
  | Required "string list"
  | Items schema
  | AllOf "schema list"
  | IfThen schema schema
  | ErrorMessage "(string \<times> string) list"
  | ErrorMessageProperties "(string \<times> string) list"

text \<open>The builders of TypeBox, as far as the factories use them.\<close>

definition Type_String :: "kw list \<Rightarrow> schema" where
  "Type_String options = Schema False (Type ''string'' # options)"


definition Type_Array :: "schema \<Rightarrow> kw list \<Rightarrow> schema" where
  "Type_Array itemSchema options = Schema False (Type ''array'' # Items itemSchema # options)"




text \<open>
  A number inside a template literal: \<open>undefined\<close> prints as \<open>undefined\<close>, a natural
  number in decimal.
\<close>

fun showNat :: "nat \<Rightarrow> string" where
  "showNat n =
     (if n < 10 then [char_of (48 + n)]
      else showNat (n div 10) @ [char_of (48 + n mod 10)])"

declare showNat.simps [simp del]

definition showNumber :: "nat option \<Rightarrow> string" where
  "showNumber n = (case n of None \<Rightarrow> ''undefined'' | Some k \<Rightarrow> showNat k)"

subsection \<open>The factories of \<open>CommonValidations\<close>\<close>

text \<open>
  \<open>options?.a?.b\<close> is \<^term>\<open>Option.bind (Option.bind options a) b\<close>. Reading a property
  of an \<open>options\<close> that is \<open>undefined\<close> without the \<open>?.\<close> throws a \<open>TypeError\<close>.
\<close>

record UuidMessages =
  uuid_type :: "string option"
  uuid_format :: "string option"

record UuidOptions =
  uuid_required :: "bool option"
  uuid_errorMessages :: "UuidMessages option"





text \<open>
  \<open>stringArray\<close>. Its first argument to \<open>Type.Array\<close> reads
  \<open>options.notAllowSpecialChars\<close>, every other access is \<open>options?.\<close>.
\<close>

record StringArrayMessages =
  type_text :: "string option"
  items_text :: "string option"
  minItems_text :: "string option"
  maxItems_text :: "string option"

record StringArrayOptions =
  minItems :: "nat option"
  maxItems :: "nat option"
  notAllowSpecialChars :: "bool option"
  errorMessages :: "StringArrayMessages option"

definition stringArray :: "StringArrayOptions option \<Rightarrow> error + schema" where
  "stringArray options =
     (case options of
        None \<Rightarrow> Inl TypeError
      | Some opts \<Rightarrow>
          Inr (Type_Array
                 (Type_String
                    [IsNotEmpty True,
                     Pattern (if notAllowSpecialChars opts = Some True then None
                              else Some (''^[a-zA-Z0-9'' @ [CHR 0x5C] @ ''s_-]+$'')),
                     ErrorMessage
                       [(''type'', orElse (Option.bind (Option.bind options errorMessages) type_text)
                                     ''Must be an array of strings''),
                        (''isNotEmpty'', orElse (Option.bind (Option.bind options errorMessages) items_text)
                                           ''Array items cannot be empty strings''),
                        (''pattern'', orElse (Option.bind (Option.bind options errorMessages) items_text)
                                        ''Array items cannot contain special characters or be empty'')]])
                 [MinItems (Option.bind options minItems),
                  MaxItems (Option.bind options maxItems),
                  ErrorMessage
                    [(''type'', orElse (Option.bind (Option.bind options errorMessages) type_text)
                                  ''Must be an array of strings''),
                     (''minItems'', orElse (Option.bind (Option.bind options errorMessages) minItems_text)
                                      (''Must have at least '' @ showNumber (Option.bind options minItems)
                                       @ '' items'')),
                     (''maxItems'', orElse (Option.bind (Option.bind options errorMessages) maxItems_text)
                                      (''Cannot exceed '' @ showNumber (Option.bind options maxItems)
                                       @ '' items''))]]))"

text \<open>
  \<open>fieldDefinitionValidation\<close>. The eight members of \<open>allOf\<close> have one shape,
  \<open>{if: {properties: {fieldType: {enum: [t]}}, required: ['fieldType']},
    then: {properties: {selectedValue: s}, errorMessage: {properties: {selectedValue: text}}}}\<close>,
  written once as \<open>conditionalBranch\<close>.
\<close>

record FieldDefinitionMessages =
  invalidFieldType :: "string option"
  invalidSelectedValue :: "string option"





section \<open>Validation of a value against a schema fragment\<close>

text \<open>
  What Ajv decides for the keywords above, following JSON Schema: a keyword constrains only
  the values of the type it applies to, \<open>properties\<close> constrains the properties that are
  present, \<open>if\<close>/\<open>then\<close> constrains the values that satisfy \<open>if\<close>. Types are not
  coerced. The checks of formats and of regular expressions are parameters (\<open>fmt\<close> and
  \<open>rx\<close>).
\<close>

datatype json = JNull | JBool bool | JNumber real | JString string
  | JArray "json list" | JObject "(string \<times> json) list"

definition hasType :: "string \<Rightarrow> json \<Rightarrow> bool" where
  "hasType t v =
     (case v of
        JNull \<Rightarrow> t = ''null''
      | JBool b \<Rightarrow> t = ''boolean''
      | JNumber n \<Rightarrow> t = ''number''
      | JString s \<Rightarrow> t = ''string''
      | JArray xs \<Rightarrow> t = ''array''
      | JObject kvs \<Rightarrow> t = ''object'')"

fun validSchema :: "(string \<Rightarrow> string \<Rightarrow> bool) \<Rightarrow> (string \<Rightarrow> string \<Rightarrow> bool) \<Rightarrow> schema \<Rightarrow> json \<Rightarrow> bool"
and validKw :: "(string \<Rightarrow> string \<Rightarrow> bool) \<Rightarrow> (string \<Rightarrow> string \<Rightarrow> bool) \<Rightarrow> kw \<Rightarrow> json \<Rightarrow> bool" where
  "validSchema fmt rx (Schema opt kws) v = list_all (\<lambda>k. validKw fmt rx k v) kws"
| "validKw fmt rx (Type t) v = hasType t v"
| "validKw fmt rx (Format f) v = (case v of JString s \<Rightarrow> fmt f s | _ \<Rightarrow> True)"
| "validKw fmt rx (Enum vs) v = (case v of JString s \<Rightarrow> s \<in> set vs | _ \<Rightarrow> False)"
| "validKw fmt rx (Pattern p) v =
     (case (p, v) of (Some r, JString s) \<Rightarrow> rx r s | _ \<Rightarrow> True)"
| "validKw fmt rx (MinItems n) v =
     (case (n, v) of (Some k, JArray xs) \<Rightarrow> k \<le> length xs | _ \<Rightarrow> True)"
| "validKw fmt rx (MaxItems n) v =
     (case (n, v) of (Some k, JArray xs) \<Rightarrow> length xs \<le> k | _ \<Rightarrow> True)"
| "validKw fmt rx (IsNotEmpty b) v = (case v of JString s \<Rightarrow> isNotEmpty b s | _ \<Rightarrow> True)"
| "validKw fmt rx (Properties ps) v =
     (case v of
        JObject kvs \<Rightarrow>
          list_all (\<lambda>p. case map_of kvs (fst p) of
                           None \<Rightarrow> True
                         | Some x \<Rightarrow> validSchema fmt rx (snd p) x) ps
      | _ \<Rightarrow> True)"
| "validKw fmt rx (Required ks) v =
     (case v of JObject kvs \<Rightarrow> list_all (\<lambda>k. map_of kvs k \<noteq> None) ks | _ \<Rightarrow> True)"
| "validKw fmt rx (Items s) v =
     (case v of JArray xs \<Rightarrow> list_all (validSchema fmt rx s) xs | _ \<Rightarrow> True)"
| "validKw fmt rx (AllOf ss) v = list_all (\<lambda>s. validSchema fmt rx s v) ss"
| "validKw fmt rx (IfThen c t) v = (if validSchema fmt rx c v then validSchema fmt rx t v else True)"
| "validKw fmt rx (ErrorMessage ms) v = True"
| "validKw fmt rx (ErrorMessageProperties ms) v = True"







section \<open>Predicates of the specification and invariants of the error map\<close>





section \<open>The duration scale of the specification\<close>

text \<open>
  Follows the words of the specification, to be compared with the converter of the
  validator: four units, a month approximated as 30 days, everything scaled to minutes.
\<close>

datatype TimeUnit = Minutes | Hours | Days | Months

fun unitName :: "TimeUnit \<Rightarrow> string" where
  "unitName Minutes = ''minutes''"
| "unitName Hours = ''hours''"
| "unitName Days = ''days''"
| "unitName Months = ''months''"

fun minuteScale :: "TimeUnit \<Rightarrow> real" where
  "minuteScale Minutes = 1"
| "minuteScale Hours = 60"
| "minuteScale Days = 1440"
| "minuteScale Months = 43200"

section \<open>Facts\<close>

lemma toLowerCase_units:
  "toLowerCase ''months'' = ''months''" "toLowerCase ''days'' = ''days''"
  "toLowerCase ''hours'' = ''hours''" "toLowerCase ''minutes'' = ''minutes''"
  by (simp_all add: toLowerCase_def toLowerChar_def)

lemma toLowerChar_idem: "toLowerChar (toLowerChar c) = toLowerChar c"
  by (simp add: toLowerChar_def Let_def)

lemma toLowerCase_idem: "toLowerCase (toLowerCase s) = toLowerCase s"
  by (simp add: toLowerCase_def toLowerChar_idem)

lemma validator_convertToMinutes_unit:
  "validator_convertToMinutes v (unitName u) = v * minuteScale u"
  by (cases u) (simp_all add: validator_convertToMinutes_def toLowerCase_units)

subsection \<open>Time relation\<close>



subsection \<open>The two converters\<close>

text \<open>
  C10. The exported \<open>convertToMinutes\<close> returns the value unchanged for every unit other
  than \<open>hours\<close> and \<open>days\<close>, \<open>months\<close> and \<open>minutes\<close> included; the converter of
  the validator lowercases the unit and maps \<open>months\<close> to \<open>v * 30 * 24 * 60\<close>; so the two
  differ on \<open>months\<close> (for every value but 0, where both return 0).
\<close>

theorem convertToMinutes_disagree_months:
  "(unit \<noteq> ''hours'' \<and> unit \<noteq> ''days'' \<longrightarrow> convertToMinutes v unit = v) \<and>
   convertToMinutes v ''months'' = v \<and> convertToMinutes v ''minutes'' = v \<and>
   validator_convertToMinutes v unit = validator_convertToMinutes v (toLowerCase unit) \<and>
   (toLowerCase unit = ''months'' \<longrightarrow> validator_convertToMinutes v unit = v * 30 * 24 * 60) \<and>
   (v \<noteq> 0 \<longrightarrow> convertToMinutes v ''months'' \<noteq> validator_convertToMinutes v ''months'')"
  by (simp add: convertToMinutes_def validator_convertToMinutes_def toLowerCase_idem
      toLowerCase_units)

theorem convertToMinutes_disagree_months_witness:
  "convertToMinutes 1 ''months'' = 1 \<and> validator_convertToMinutes 1 ''Months'' = 43200 \<and>
   convertToMinutes 1 ''months'' \<noteq> validator_convertToMinutes 1 ''months''"
proof -
  have l: "toLowerCase ''Months'' = ''months''"
    by code_simp
  show ?thesis
    using convertToMinutes_disagree_months [of "''Months''" 1]
      convertToMinutes_disagree_months [of "''months''" 1] l
    by simp
qed

subsection \<open>Keywords on empty and single-element arrays\<close>





subsection \<open>The normalizer on absent input\<close>

text \<open>
  C9. \<open>formatAjvErrors\<close> applied to \<open>null\<close> or to \<open>undefined\<close> returns the empty list and
  does not throw.
\<close>

theorem formatAjvErrors_absent:
  "formatAjvErrors Null = Inr [] \<and> formatAjvErrors Undefined = Inr []"
  by (simp add: formatAjvErrors_def)

subsection \<open>The validator never throws\<close>

text \<open>
  C2. For every schema, value and options, \<open>ajvSchemaValidator\<close> returns a result and does
  not throw; when the compilation of the schema throws, the result is \<open>isValid: false\<close> with
  the single error \<open>{field: '_schema', message: 'Invalid schema configuration'}\<close>, a literal of
  the \<open>catch\<close> block that no call of \<open>formatAjvErrors\<close> produced.
\<close>

theorem ajvSchemaValidator_total:
  "(\<exists>result. ajvSchemaValidator ajv schema v options = Inr result) \<and>
   (\<forall>x. ajv schema = Inl x \<longrightarrow>
      tryValidate ajv schema v options = Inl x \<and>
      ajvSchemaValidator ajv schema v options =
        Inr \<lparr>isValid = False,
             errors = Some [\<lparr>field = ''_schema'', message = ''Invalid schema configuration'',
                             path = None\<rparr>],
             rawErrors = None\<rparr>)"
proof (intro conjI allI impI)
  show "\<exists>result. ajvSchemaValidator ajv schema v options = Inr result"
    by (cases "tryValidate ajv schema v options") (simp_all add: ajvSchemaValidator_def)
next
  fix x
  assume "ajv schema = Inl x"
  then show "tryValidate ajv schema v options = Inl x"
    by (simp add: tryValidate_def)
  then show "ajvSchemaValidator ajv schema v options =
        Inr \<lparr>isValid = False,
             errors = Some [\<lparr>field = ''_schema'', message = ''Invalid schema configuration'',
                             path = None\<rparr>],
             rawErrors = None\<rparr>"
    by (simp add: ajvSchemaValidator_def schemaError_def)
qed

theorem ajvSchemaValidator_total_witness:
  "ajvSchemaValidator (\<lambda>schema :: unit. Inl CompileError) () () None =
     Inr \<lparr>isValid = False,
          errors = Some [\<lparr>field = ''_schema'', message = ''Invalid schema configuration'',
                          path = None\<rparr>],
          rawErrors = None\<rparr>"
  using ajvSchemaValidator_total [of "\<lambda>schema :: unit. Inl CompileError" "()" "()" None]
  by simp

subsection \<open>Validity and the error list\<close>

lemma tryValidate_valid_errors:
  assumes "tryValidate ajv schema v options = Inr result"
  shows "isValid result \<longrightarrow> errors result = None"
  using assms
  by (auto simp add: tryValidate_def Let_def
      split: sum.splits prod.splits nullable.splits if_splits)

lemma remapErrors_Value:
  "(\<exists>es. remapErrors options errs = Value es) \<longleftrightarrow> (\<exists>es. errs = Value es)"
  by (auto simp add: remapErrors_def split: option.splits nullable.splits)

lemma tryValidate_null_errors:
  assumes "tryValidate ajv schema v options = Inr result"
    and "errors result = None" and "\<not> isValid result"
  shows "\<exists>validateFn errs. ajv schema = Inr validateFn \<and> validateFn v = Inr (False, errs) \<and>
           (errs = Null \<or> errs = Undefined)"
proof -
  from assms(1) obtain validateFn where f: "ajv schema = Inr validateFn"
    by (auto simp add: tryValidate_def split: sum.splits)
  from assms(1) f obtain valid errs where r: "validateFn v = Inr (valid, errs)"
    by (auto simp add: tryValidate_def split: sum.splits)
  have nv: "\<not> valid"
    using assms f r
    by (auto simp add: tryValidate_def Let_def split: sum.splits nullable.splits if_splits)
  have "\<not> (\<exists>es. remapErrors options errs = Value es)"
    using assms f r nv
    by (auto simp add: tryValidate_def Let_def split: sum.splits nullable.splits if_splits)
  then have "\<not> (\<exists>es. errs = Value es)"
    by (simp add: remapErrors_Value)
  then have "errs = Null \<or> errs = Undefined"
    by (cases errs) simp_all
  with f r nv show ?thesis by auto
qed

text \<open>
  C1, as the code has it. A valid result has \<open>errors\<close> null. A result with \<open>errors\<close> null
  is valid as soon as Ajv keeps its contract of leaving an error array behind every failed
  validation. The error list of an invalid result may be empty.
\<close>

theorem ajvSchemaValidator_valid_iff_null:
  assumes "ajvSchemaValidator ajv schema v options = Inr result"
  shows "(isValid result \<longrightarrow> errors result = None) \<and>
         ((\<forall>validateFn valid errs.
              ajv schema = Inr validateFn \<longrightarrow> validateFn v = Inr (valid, errs) \<longrightarrow>
              (valid \<or> (\<exists>es. errs = Value es)))
            \<longrightarrow> (errors result = None \<longrightarrow> isValid result))"
proof (cases "tryValidate ajv schema v options")
  case (Inl caught)
  with assms have "result = schemaError"
    by (simp add: ajvSchemaValidator_def)
  then show ?thesis
    by (simp add: schemaError_def)
next
  case (Inr r)
  with assms have t: "tryValidate ajv schema v options = Inr result"
    by (simp add: ajvSchemaValidator_def)
  show ?thesis
  proof (intro conjI impI)
    assume "isValid result"
    then show "errors result = None"
      using tryValidate_valid_errors [OF t] by simp
  next
    assume c: "\<forall>validateFn valid errs.
              ajv schema = Inr validateFn \<longrightarrow> validateFn v = Inr (valid, errs) \<longrightarrow>
              (valid \<or> (\<exists>es. errs = Value es))"
      and n: "errors result = None"
    show "isValid result"
    proof (rule ccontr)
      assume "\<not> isValid result"
      from tryValidate_null_errors [OF t n this] c show False
        by fastforce
    qed
  qed
qed

theorem ajvSchemaValidator_valid_iff_null_witness:
  "ajvSchemaValidator (\<lambda>schema :: unit. Inr (\<lambda>v :: unit. Inr (True, Null))) () () None =
     Inr \<lparr>isValid = True, errors = None, rawErrors = None\<rparr> \<and>
   errors \<lparr>isValid = True, errors = None, rawErrors = None\<rparr> = None \<and>
   isValid \<lparr>isValid = True, errors = None, rawErrors = None\<rparr>"
proof -
  have h: "ajvSchemaValidator (\<lambda>schema :: unit. Inr (\<lambda>v :: unit. Inr (True, Null))) () () None =
             Inr \<lparr>isValid = True, errors = None, rawErrors = None\<rparr>"
    by (simp add: ajvSchemaValidator_def tryValidate_def remapErrors_def)
  have c: "\<forall>validateFn valid errs.
             (\<lambda>schema :: unit. Inr (\<lambda>v :: unit. Inr (True, Null))) () = Inr validateFn \<longrightarrow>
             validateFn () = Inr (valid, errs) \<longrightarrow> (valid \<or> (\<exists>es. errs = Value es))"
    by auto
  from ajvSchemaValidator_valid_iff_null [OF h] c h show ?thesis
    by simp
qed

text \<open>
  An invalid result with an empty error list. The schema is an array carrying
  \<open>validateTimeRelation\<close> at its root, so the error of the keyword has the empty instance
  path; the normalizer derives the empty field with priority 1 and its last filter drops it.
\<close>

theorem ajvSchemaValidator_invalid_empty_errors:
  "ajvSchemaValidator
     (\<lambda>schema :: unit. Inr (\<lambda>data.
        Inr (if validateTimeRelation schema (Some data) then (True, Null)
             else (False, Value [ErrorObject ''validateTimeRelation'' []
                     (Some ''Resolution time must be strictly greater than response time for each severity level'')
                     None None None None None None None]))))
     ()
     [\<lparr>resolveWithinUnit = ''minutes'', resolveWithinValue = 30,
       respondWithinUnit = ''hours'', respondWithinValue = 2\<rparr>]
     None
   = Inr \<lparr>isValid = False, errors = Some [], rawErrors = None\<rparr>"
proof -
  have a: "validator_convertToMinutes 30 (unitName Minutes) = 30"
    "validator_convertToMinutes 2 (unitName Hours) = 120"
    by (simp_all only: validator_convertToMinutes_unit) simp_all
  have b: "\<not> validateTimeRelation ()
     (Some [\<lparr>resolveWithinUnit = ''minutes'', resolveWithinValue = 30,
       respondWithinUnit = ''hours'', respondWithinValue = 2\<rparr>])"
    using a by (simp add: validateTimeRelation_def Let_def)
  have c: "formatAjvErrors (Value [ErrorObject ''validateTimeRelation'' []
                     (Some ''Resolution time must be strictly greater than response time for each severity level'')
                     None None None None None None None]) = Inr []"
    by (simp add: formatAjvErrors_def addError_def deriveEntry_def setIfHigher_def
        getFieldFromPath_def finalEntries_def keepsGeneric_def orElse_def Let_def)
  show ?thesis
    using b c by (simp add: ajvSchemaValidator_def tryValidate_def remapErrors_def)
qed


subsection \<open>Deduplication, priority and order in the normalizer\<close>




















subsection \<open>The filter of generic conditional errors\<close>








subsection \<open>The discriminated union of field definitions\<close>










subsection \<open>Construction of fragments\<close>

text \<open>
  C4. \<open>CommonValidations.stringArray()\<close>, the call without an argument that the
  documentation of the factory gives as its basic use, throws a \<open>TypeError\<close>; with an
  argument the factory returns a fragment.
\<close>

theorem stringArray_without_options_throws:
  "stringArray None = Inl TypeError \<and> (\<forall>opts. \<exists>fragment. stringArray (Some opts) = Inr fragment)"
  by (simp add: stringArray_def)

end
